theory Spec2Isabelle
  imports Complex_Main
begin

section \<open>Conventions of the embedding\<close>

text \<open>
  The scripts compute with Python floats and numpy arrays of floats. A float is
  modelled by the real number it stands for: rounding, overflow and underflow are
  not represented. Where the source can produce the special values of float
  arithmetic (an undefined step width of \<^verbatim>\<open>np.linspace\<close>, a numpy division by zero)
  the model makes them explicit, as \<open>None\<close> for NaN or as the type \<open>npval\<close> below.
  An exception of the source is a value \<open>Inl e\<close> of a sum type.
  A numpy array is a list; a function applied to an array is \<open>map\<close>; \<^verbatim>\<open>np.sum\<close>
  is \<open>sum_list\<close>. Counts that the source passes to \<^verbatim>\<open>range\<close>, \<^verbatim>\<open>np.ones\<close> or
  \<^verbatim>\<open>np.linspace\<close> are natural numbers (a negative count raises in numpy).
\<close>

datatype py_error = ZeroDivisionError | IndexError | ValueError

section \<open>Numerical differentiation (2\_1\_katharina.py)\<close>




section \<open>Numerical integration (3\_1\_katharina.py)\<close>

text \<open>
  \<^verbatim>\<open>np.linspace(start, stop, num, endpoint, retstep)\<close> is numpy's. It computes
  \<^verbatim>\<open>y = arange(0, num)\<close>, \<^verbatim>\<open>div = num - 1 if endpoint else num\<close>, and then,
  for more than one sample, \<^verbatim>\<open>step = delta / div; y = y * step + start\<close>, with
  the last sample overwritten by \<^verbatim>\<open>stop\<close> when \<^verbatim>\<open>endpoint\<close> is set. For at most
  one sample the step is NaN (the case the source's comment \<^verbatim>\<open>h=nan\<close> refers to) and
  \<^verbatim>\<open>y = y * delta + start\<close>. The step is \<open>None\<close> where numpy returns NaN.
\<close>

definition np_linspace :: "real \<Rightarrow> real \<Rightarrow> nat \<Rightarrow> bool \<Rightarrow> real list \<times> real option" where
  "np_linspace start stop num endpoint =
     (let divisor = (if endpoint then num - 1 else num);
          delta = stop - start
      in if num > 1 then
           (let step = delta / real divisor;
                y = map (\<lambda>i. real i * step + start) [0..<num]
            in (if endpoint then y[num - 1 := stop] else y, Some step))
         else (map (\<lambda>i. real i * delta + start) [0..<num], None))"





section \<open>Standard map on the torus (1\_1\_katharina.py)\<close>

text \<open>
  Python's \<^verbatim>\<open>x % y\<close> on floats takes the sign of the divisor: it is
  \<open>x - y * floor (x / y)\<close>. Every use in the scripts has the divisor \<open>2 * pi\<close>, so
  the \<^verbatim>\<open>ZeroDivisionError\<close> of a zero divisor cannot occur.
\<close>

definition py_mod :: "real \<Rightarrow> real \<Rightarrow> real" where
  "py_mod x y = x - y * of_int \<lfloor>x / y\<rfloor>"

text \<open>
  The loop of \<^verbatim>\<open>torus_iteration\<close>, with the remaining number of iterations:
  \<^verbatim>\<open>
    for i in range(n):
        theta += (p % (2*np.pi))
        p += ((K*np.sin(theta) + np.pi) % (2*np.pi) - np.pi)
        plottheta.append((theta) % (2*np.pi))
        plotp.append((p + np.pi) % (2*np.pi) - np.pi)
  \<close>
\<close>

fun torus_schleife ::
  "real \<Rightarrow> nat \<Rightarrow> real \<Rightarrow> real \<Rightarrow> real list \<Rightarrow> real list \<Rightarrow> real list \<times> real list" where
  "torus_schleife K 0 theta p plottheta plotp = (plottheta, plotp)"
| "torus_schleife K (Suc n) theta p plottheta plotp =
     (let theta' = theta + py_mod p (2 * pi);
          p' = p + (py_mod (K * sin theta' + pi) (2 * pi) - pi)
      in torus_schleife K n theta' p'
           (plottheta @ [py_mod theta' (2 * pi)])
           (plotp @ [py_mod (p' + pi) (2 * pi) - pi]))"

definition torus_iteration :: "real \<Rightarrow> real \<Rightarrow> real \<Rightarrow> nat \<Rightarrow> real list \<times> real list" where
  "torus_iteration theta p K n = torus_schleife K n theta p [] []"

section \<open>Space discretisation of the two quantum scripts\<close>

text \<open>
  5\_1\_katharina.py:
  \<^verbatim>\<open>
    delta_x = (b-a)/(N+1)
    return np.linspace(a + delta_x, b - delta_x, N)
  \<close>
\<close>

definition diskretisierung_5_1 :: "real \<Rightarrow> real \<Rightarrow> nat \<Rightarrow> real list" where
  "diskretisierung_5_1 a b N =
     (let delta_x = (b - a) / (real N + 1)
      in fst (np_linspace (a + delta_x) (b - delta_x) N True))"

text \<open>
  7\_1\_katharina.py; the function of the same name returns the grid alone, or the
  pair of the grid and \<^verbatim>\<open>delta_x\<close> when \<^verbatim>\<open>retstep\<close> is set:
  \<^verbatim>\<open>
    delta_x = (xmax - xmin) / (N + 1)
    x = np.linspace(xmin+delta_x, xmax-delta_x, N, endpoint=False)
    if retstep:
        return x, delta_x
    else:
        return x
  \<close>
\<close>

definition diskretisierung_7_1 ::
  "real \<Rightarrow> real \<Rightarrow> nat \<Rightarrow> bool \<Rightarrow> real list + real list \<times> real" where
  "diskretisierung_7_1 xmin xmax N retstep =
     (let delta_x = (xmax - xmin) / (real N + 1);
          x = fst (np_linspace (xmin + delta_x) (xmax - delta_x) N False)
      in if retstep then Inr (x, delta_x) else Inl x)"

section \<open>Hamiltonian matrices (5\_1\_katharina.py and 7\_1\_katharina.py)\<close>

text \<open>
  \<^verbatim>\<open>np.diag(v, k)\<close> of a one-dimensional array is the square matrix of dimension
  \<open>len(v) + |k|\<close> that holds \<open>v\<close> on its \<open>k\<close>-th diagonal (above the main diagonal
  for positive \<open>k\<close>, below it for negative \<open>k\<close>) and zero elsewhere. A matrix is the
  list of its rows.
\<close>

definition np_diag :: "'a::zero list \<Rightarrow> int \<Rightarrow> 'a list list" where
  "np_diag v k =
     (let n = length v + nat \<bar>k\<bar>
      in map (\<lambda>i. map (\<lambda>j. if int j - int i = k
                              then v ! (if 0 \<le> k then i else j) else 0) [0..<n]) [0..<n])"

text \<open>
  The sum of two square matrices under numpy's broadcasting: matrices of the same
  dimension are added entry by entry, a 1-by-1 matrix is added to every entry of
  the other one, and any other pair of dimensions raises \<^verbatim>\<open>ValueError\<close>.
\<close>

definition np_add :: "'a::plus list list \<Rightarrow> 'a list list \<Rightarrow> py_error + 'a list list" where
  "np_add A B =
     (if length A = length B then Inr (map2 (map2 (+)) A B)
      else if length A = 1 then Inr (map (map (\<lambda>b. A ! 0 ! 0 + b)) B)
      else if length B = 1 then Inr (map (map (\<lambda>a. a + B ! 0 ! 0)) A)
      else Inl ValueError)"

definition np_ones :: "nat \<Rightarrow> real list" where
  "np_ones n = replicate n 1"

text \<open>
  \<^verbatim>\<open>diagonalisieren(N, h_eff, x, V)\<close> of 5\_1\_katharina.py, with the library
  eigensolver \<^verbatim>\<open>scipy.linalg.eigh\<close> as the parameter \<open>eigh\<close>:
  \<^verbatim>\<open>
    delta_x = x[1] - x[0]
    z = h_eff**2 / (2*delta_x**2)
    matrix = (np.diag(V, k=0) + np.diag(np.ones(N)*2*z, k=0) +
              np.diag(np.ones(N-1)*-z, k=-1) +
              np.diag(np.ones(N-1)*-z, k=+1))
    eigenwert, eigenfunktion = eigh(matrix)
    return eigenwert, eigenfunktion
  \<close>
  \<open>x\<close> and \<open>V\<close> are numpy arrays. \<^verbatim>\<open>x[1]\<close> raises \<^verbatim>\<open>IndexError\<close> on a grid of
  fewer than two points, \<^verbatim>\<open>np.ones(N-1)\<close> raises \<^verbatim>\<open>ValueError\<close> for \<open>N = 0\<close>.
  With \<open>delta_x = 0\<close> numpy's division gives an infinite or NaN \<open>z\<close>, which ends
  up on the diagonal, and \<^verbatim>\<open>eigh\<close> rejects a matrix with such an entry by
  \<^verbatim>\<open>ValueError\<close>; the real matrix of \<open>matrix_5_1\<close> does not describe that case.
\<close>

definition matrix_5_1 :: "nat \<Rightarrow> real \<Rightarrow> real list \<Rightarrow> real list \<Rightarrow> py_error + real list list" where
  "matrix_5_1 N h_eff x V =
     (if length x < 2 then Inl IndexError
      else
        let delta_x = x ! 1 - x ! 0;
            z = h_eff\<^sup>2 / (2 * delta_x\<^sup>2)
        in case np_add (np_diag V 0) (np_diag (map (\<lambda>e. e * 2 * z) (np_ones N)) 0) of
             Inl e \<Rightarrow> Inl e
           | Inr m1 \<Rightarrow>
               if N = 0 then Inl ValueError
               else
                 (case np_add m1 (np_diag (map (\<lambda>e. e * - z) (np_ones (N - 1))) (- 1)) of
                    Inl e \<Rightarrow> Inl e
                  | Inr m2 \<Rightarrow>
                      np_add m2 (np_diag (map (\<lambda>e. e * - z) (np_ones (N - 1))) 1)))"

definition diagonalisieren ::
  "(real list list \<Rightarrow> 'r) \<Rightarrow> nat \<Rightarrow> real \<Rightarrow> real list \<Rightarrow> real list \<Rightarrow> py_error + 'r" where
  "diagonalisieren eigh N h_eff x V =
     (case matrix_5_1 N h_eff x V of
        Inl e \<Rightarrow> Inl e
      | Inr matrix \<Rightarrow>
          if x ! 1 - x ! 0 = 0 \<and> matrix \<noteq> [] then Inl ValueError
          else Inr (eigh matrix))"

text \<open>
  \<^verbatim>\<open>diagonalisierung(h_eff, x, V, k)\<close> of 7\_1\_katharina.py. The matrix it hands
  to \<^verbatim>\<open>eigh\<close>:
  \<^verbatim>\<open>
    delta_x = x[1] - x[0]
    v_werte = V(x)
    N = len(x)
    z = h_eff**2 / (2.0*delta_x**2)
    h = (np.diag(v_werte + 2.0*z + 0j) +
         np.diag(-z*np.ones(N-1) + 0j, k=-1) +
         np.diag(-z*np.ones(N-1) + 0j, k=1))
    h[0, -1] = -z * np.exp(-1j*k)
    h[-1, 0] = -z * np.exp(+1j*k)
  \<close>
  The potential \<open>V\<close> is a real function of one variable and \<open>k\<close> is real. As
  in 5\_1\_katharina.py the entries are finite only for \<open>delta_x \<noteq> 0\<close>.
\<close>

definition setze :: "'a list list \<Rightarrow> nat \<Rightarrow> nat \<Rightarrow> 'a \<Rightarrow> 'a list list" where
  "setze h i j c = h[i := (h ! i)[j := c]]"

definition matrix_7_1 :: "real \<Rightarrow> real list \<Rightarrow> (real \<Rightarrow> real) \<Rightarrow> real \<Rightarrow> py_error + complex list list" where
  "matrix_7_1 h_eff x V k =
     (if length x < 2 then Inl IndexError
      else
        let delta_x = x ! 1 - x ! 0;
            v_werte = map V x;
            N = length x;
            z = h_eff\<^sup>2 / (2 * delta_x\<^sup>2)
        in case np_add (np_diag (map (\<lambda>v. complex_of_real (v + 2 * z) + 0) v_werte) 0)
                       (np_diag (map (\<lambda>e. complex_of_real (- z * e) + 0) (np_ones (N - 1))) (- 1)) of
             Inl e \<Rightarrow> Inl e
           | Inr m1 \<Rightarrow>
               (case np_add m1
                       (np_diag (map (\<lambda>e. complex_of_real (- z * e) + 0) (np_ones (N - 1))) 1) of
                  Inl e \<Rightarrow> Inl e
                | Inr h \<Rightarrow>
                    let h1 = setze h 0 (N - 1) (complex_of_real (- z) * exp (- \<i> * complex_of_real k));
                        h2 = setze h1 (N - 1) 0 (complex_of_real (- z) * exp (\<i> * complex_of_real k))
                    in Inr h2))"

text \<open>
  The rest of \<^verbatim>\<open>diagonalisierung\<close>:
  \<^verbatim>\<open>
    ew, ef = eigh(h)
    ef = ef/np.sqrt(delta_x)
    return ew, ef
  \<close>
  As above \<^verbatim>\<open>eigh\<close> raises \<^verbatim>\<open>ValueError\<close> on the non-finite entries that
  \<open>delta_x = 0\<close> produces. The square root of a negative \<open>delta_x\<close> is NaN and makes
  every entry of \<open>ef\<close> NaN, which is the entry \<open>None\<close>.
\<close>

definition diagonalisierung ::
  "(complex list list \<Rightarrow> real list \<times> complex list list) \<Rightarrow>
   real \<Rightarrow> real list \<Rightarrow> (real \<Rightarrow> real) \<Rightarrow> real \<Rightarrow>
   py_error + real list \<times> complex option list list" where
  "diagonalisierung eigh h_eff x V k =
     (case matrix_7_1 h_eff x V k of
        Inl e \<Rightarrow> Inl e
      | Inr h \<Rightarrow>
          let delta_x = x ! 1 - x ! 0
          in if delta_x = 0 then Inl ValueError
             else (case eigh h of (ew, ef) \<Rightarrow>
                     Inr (ew, map (map (\<lambda>c. if delta_x < 0 then None
                                           else Some (c / complex_of_real (sqrt delta_x)))) ef)))"

text \<open>A square complex matrix that equals its conjugate transpose.\<close>

definition hermitesch :: "complex list list \<Rightarrow> bool" where
  "hermitesch h \<longleftrightarrow>
     (\<forall>i<length h. length (h ! i) = length h) \<and>
     (\<forall>i<length h. \<forall>j<length h. h ! i ! j = cnj (h ! j ! i))"

text \<open>A matrix with \<open>n\<close> rows of length \<open>n\<close>.\<close>

definition quadratisch :: "nat \<Rightarrow> 'a list list \<Rightarrow> bool" where
  "quadratisch n m \<longleftrightarrow> length m = n \<and> (\<forall>i<n. length (m ! i) = n)"

section \<open>Mouse-click handlers\<close>

text \<open>
  A matplotlib mouse event, as far as the handlers read it: the button, the axes the
  click fell into (\<open>None\<close> outside every axes) and the data coordinates, which
  are read only after \<^verbatim>\<open>event.inaxes\<close> has been tested. The state a handler can
  change is the figure (the plotted lines, each with the number of its axes) and
  the console; the toolbar mode is part of the figure and is only read.
\<close>

record event =
  button :: int
  inaxes :: "nat option"
  xdata :: real
  ydata :: real

record fenster =
  toolbar_mode :: string
  linien :: "(nat \<times> real list \<times> real list) list"
  konsole :: "string list"

text \<open>
  The test all handlers but the one of 7\_1\_katharina.py make:
  \<^verbatim>\<open>
    mode = plt.get_current_fig_manager().toolbar.mode
    if event.button == 1 and event.inaxes and mode == '':
  \<close>
\<close>

definition linksklick_test :: "event \<Rightarrow> fenster \<Rightarrow> bool" where
  "linksklick_test ev st \<longleftrightarrow> button ev = 1 \<and> inaxes ev \<noteq> None \<and> toolbar_mode st = []"

text \<open>
  1\_1\_katharina.py:
  \<^verbatim>\<open>
        x, y = torus_iteration(event.xdata, event.ydata,K=K, n=1000)
        plt.plot(x, y, linestyle='', marker='.', markersize=1)
        plt.draw()
  \<close>
  The figure of that script has the single axes 0.
\<close>

definition linksklick_1_1 :: "event \<Rightarrow> real \<Rightarrow> fenster \<Rightarrow> py_error + fenster" where
  "linksklick_1_1 ev K st =
     (if linksklick_test ev st then
        (case torus_iteration (xdata ev) (ydata ev) K 1000 of
           (x, y) \<Rightarrow> Inr (st\<lparr>linien := linien st @ [(0, x, y)]\<rparr>))
      else Inr st)"

text \<open>
  4\_1\_katharina.py. The right-hand side of the differential equation,
  \<^verbatim>\<open>np.array([y[1], (-4)*y[0]**3 + 2*y[0] - A - B*np.sin(omega*t)])\<close>:
\<close>

definition ableitung :: "real list \<Rightarrow> real \<Rightarrow> real \<Rightarrow> real \<Rightarrow> real \<Rightarrow> real list" where
  "ableitung y t A B omega =
     [y ! 1, (- 4) * (y ! 0) ^ 3 + 2 * (y ! 0) - A - B * sin (omega * t)]"

text \<open>
  The handler, with the library integrator \<^verbatim>\<open>scipy.integrate.odeint\<close> as the
  parameter \<open>odeint\<close> (it returns one row \<open>[x, p]\<close> for each time):
  \<^verbatim>\<open>
        zeiten = np.linspace(0.0, (2*np.pi/omega)*perioden, perioden*N+1)
        y_t = odeint(ableitung, [event.xdata, event.ydata], zeiten,
                     args=(A, B, omega))
        x_t = y_t[:, 0]
        p_t = y_t[:, 1]
        trajekt = plt.subplot(121)
        trajekt.plot(x_t, p_t, marker="", ls="-", linewidth=1)
        strob = plt.subplot(122)
        counter = np.arange(perioden+1)
        strob.plot(x_t[counter*N], p_t[counter*N], marker=".", markersize=2.5,
                   ls="")
        plt.draw()
  \<close>
  \<open>omega\<close> is a Python number, so \<open>omega = 0\<close> raises \<^verbatim>\<open>ZeroDivisionError\<close>; an
  index beyond the rows that \<open>odeint\<close> returned raises \<^verbatim>\<open>IndexError\<close> after the
  first line has been plotted.
\<close>

definition linksklick_4_1 ::
  "((real list \<Rightarrow> real \<Rightarrow> real list) \<Rightarrow> real list \<Rightarrow> real list \<Rightarrow> real list list) \<Rightarrow>
   event \<Rightarrow> real \<Rightarrow> real \<Rightarrow> real \<Rightarrow> nat \<Rightarrow> nat \<Rightarrow> fenster \<Rightarrow> py_error + fenster" where
  "linksklick_4_1 odeint ev A B omega perioden N st =
     (if linksklick_test ev st then
        (if omega = 0 then Inl ZeroDivisionError
         else
           let zeiten = fst (np_linspace 0 ((2 * pi / omega) * real perioden)
                               (perioden * N + 1) True);
               y_t = odeint (\<lambda>y t. ableitung y t A B omega) [xdata ev, ydata ev] zeiten;
               x_t = map (\<lambda>row. row ! 0) y_t;
               p_t = map (\<lambda>row. row ! 1) y_t;
               counter = [0..<perioden + 1]
           in if \<exists>c \<in> set counter. length y_t \<le> c * N then Inl IndexError
              else Inr (st\<lparr>linien := linien st @
                          [(1, x_t, p_t),
                           (2, map (\<lambda>c. x_t ! (c * N)) counter,
                               map (\<lambda>c. p_t ! (c * N)) counter)]\<rparr>))
      else Inr st)"

text \<open>
  6\_1\_katharina.py and 9\_1\_katharina.py guard their bodies (the animation of a wave
  packet, the simulation of the diffusion) by the same test. The body is the
  parameter \<open>rumpf\<close>: it may change the figure and the console in any way, or raise.
\<close>

definition linksklick_6_1 ::
  "(event \<Rightarrow> fenster \<Rightarrow> py_error + fenster) \<Rightarrow> event \<Rightarrow> fenster \<Rightarrow> py_error + fenster" where
  "linksklick_6_1 rumpf ev st = (if linksklick_test ev st then rumpf ev st else Inr st)"

definition linksklick_9_1 ::
  "(event \<Rightarrow> fenster \<Rightarrow> py_error + fenster) \<Rightarrow> event \<Rightarrow> fenster \<Rightarrow> py_error + fenster" where
  "linksklick_9_1 rumpf ev st = (if linksklick_test ev st then rumpf ev st else Inr st)"

text \<open>
  7\_1\_katharina.py accepts a click in its left axes \<open>ax1\<close> only:
  \<^verbatim>\<open>if event.button == 1 and event.inaxes == ax1 and mode == '':\<close>
\<close>

definition linksklick_7_1 ::
  "(event \<Rightarrow> fenster \<Rightarrow> py_error + fenster) \<Rightarrow> nat \<Rightarrow> event \<Rightarrow> fenster \<Rightarrow> py_error + fenster" where
  "linksklick_7_1 rumpf ax1 ev st =
     (if button ev = 1 \<and> inaxes ev = Some ax1 \<and> toolbar_mode st = [] then rumpf ev st
      else Inr st)"

section \<open>Probability densities of the drift-diffusion script (9\_1\_katharina.py)\<close>

text \<open>
  Dividing by zero is where Python and numpy part: a Python float divided by the
  Python float zero raises \<^verbatim>\<open>ZeroDivisionError\<close>, while a division in which a numpy
  value takes part returns an infinity or NaN (with a warning) and raises nothing.
  The entries of a numpy array are therefore modelled with the special values:
  a real number, plus or minus infinity, or NaN. Zero stands for the positive
  zero.
\<close>

datatype npval = Fin real | PInf | NInf | NaN

text \<open>The sign of a value, and the infinity (or NaN for sign 0) of a given sign.\<close>

fun vorzeichen :: "npval \<Rightarrow> real" where
  "vorzeichen (Fin r) = sgn r"
| "vorzeichen PInf = 1"
| "vorzeichen NInf = - 1"
| "vorzeichen NaN = 0"

definition unendlich :: "real \<Rightarrow> npval" where
  "unendlich s = (if s = 0 then NaN else if 0 < s then PInf else NInf)"

fun np_neg :: "npval \<Rightarrow> npval" where
  "np_neg (Fin r) = Fin (- r)"
| "np_neg PInf = NInf"
| "np_neg NInf = PInf"
| "np_neg NaN = NaN"

fun np_mul :: "npval \<Rightarrow> npval \<Rightarrow> npval" where
  "np_mul (Fin a) (Fin b) = Fin (a * b)"
| "np_mul NaN b = NaN"
| "np_mul a NaN = NaN"
| "np_mul a b = unendlich (vorzeichen a * vorzeichen b)"

fun np_div :: "npval \<Rightarrow> npval \<Rightarrow> npval" where
  "np_div (Fin a) (Fin b) = (if b = 0 then unendlich (sgn a) else Fin (a / b))"
| "np_div NaN b = NaN"
| "np_div a NaN = NaN"
| "np_div (Fin a) b = Fin 0"
| "np_div a (Fin b) = unendlich (vorzeichen a * (if b = 0 then 1 else sgn b))"
| "np_div a b = NaN"

fun np_sub :: "npval \<Rightarrow> npval \<Rightarrow> npval" where
  "np_sub (Fin a) (Fin b) = Fin (a - b)"
| "np_sub NaN b = NaN"
| "np_sub a NaN = NaN"
| "np_sub (Fin a) b = np_neg b"
| "np_sub a (Fin b) = a"
| "np_sub a b = (if a = b then NaN else a)"

fun np_sqrt :: "npval \<Rightarrow> npval" where
  "np_sqrt (Fin r) = (if r < 0 then NaN else Fin (sqrt r))"
| "np_sqrt PInf = PInf"
| "np_sqrt NInf = NaN"
| "np_sqrt NaN = NaN"

fun np_exp :: "npval \<Rightarrow> npval" where
  "np_exp (Fin r) = Fin (exp r)"
| "np_exp PInf = PInf"
| "np_exp NInf = Fin 0"
| "np_exp NaN = NaN"

text \<open>
  An argument \<open>x\<close> of \<^verbatim>\<open>gauss\<close> is a Python number (\<^verbatim>\<open>x_abs\<close>) or a numpy array
  of positions (\<^verbatim>\<open>x_t\<close>); a result is a Python float or a numpy array.
\<close>

datatype traeger = PySkalar real | NpFeld "real list"

datatype pyval = PyFloat real | NpArray "npval list"

text \<open>
  \<^verbatim>\<open>(mu!=x).all()\<close>, for the array \<open>mu\<close> of expectation values. Against an array
  \<open>x\<close> the comparison is entry by entry; both arrays have the length \<open>R\<close> in the
  script.
\<close>

fun alle_ungleich :: "real list \<Rightarrow> traeger \<Rightarrow> bool" where
  "alle_ungleich mu (PySkalar r) = list_all (\<lambda>m. m \<noteq> r) mu"
| "alle_ungleich mu (NpFeld xs) = list_all (\<lambda>(m, xi). m \<noteq> xi) (zip mu xs)"

text \<open>
  One entry of
  \<^verbatim>\<open>(1/(np.sqrt(2*np.pi*var))) * np.exp(-(((x - mu)**2)/(2*var)))\<close>;
  \<open>var\<close> is a numpy float in every call, so these divisions do not raise.
\<close>

definition dichte :: "real \<Rightarrow> real \<Rightarrow> real \<Rightarrow> npval" where
  "dichte xi m var =
     np_mul (np_div (Fin 1) (np_sqrt (Fin (2 * pi * var))))
            (np_exp (np_neg (np_div (Fin ((xi - m)\<^sup>2)) (Fin (2 * var)))))"

text \<open>
  \<^verbatim>\<open>
    if var == 0 and (mu!=x).all():
        gauss = 0.0 * x
    else:
        gauss = (1/(np.sqrt(2*np.pi*var))) * np.exp(-(((x - mu)**2)/(2*var)))
    return gauss
  \<close>
  \<^verbatim>\<open>0.0 * x\<close> is a Python float for a Python number \<open>x\<close> and an array for an
  array \<open>x\<close>; the other branch always yields an array, since \<open>mu\<close> is one.
\<close>

fun gauss :: "traeger \<Rightarrow> real list \<Rightarrow> real \<Rightarrow> pyval" where
  "gauss (PySkalar r) mu var =
     (if var = 0 \<and> alle_ungleich mu (PySkalar r) then PyFloat (0 * r)
      else NpArray (map (\<lambda>m. dichte r m var) mu))"
| "gauss (NpFeld xs) mu var =
     (if var = 0 \<and> alle_ungleich mu (NpFeld xs) then NpArray (map (\<lambda>xi. Fin (0 * xi)) xs)
      else NpArray (map (\<lambda>(xi, m). dichte xi m var) (zip xs mu)))"

text \<open>The operators \<^verbatim>\<open>/\<close>, \<^verbatim>\<open>*\<close> and \<^verbatim>\<open>-\<close> on these values.\<close>

fun py_truediv :: "pyval \<Rightarrow> pyval \<Rightarrow> py_error + pyval" where
  "py_truediv (PyFloat a) (PyFloat b) =
     (if b = 0 then Inl ZeroDivisionError else Inr (PyFloat (a / b)))"
| "py_truediv (PyFloat a) (NpArray bs) = Inr (NpArray (map (\<lambda>b. np_div (Fin a) b) bs))"
| "py_truediv (NpArray as) (PyFloat b) = Inr (NpArray (map (\<lambda>a. np_div a (Fin b)) as))"
| "py_truediv (NpArray as) (NpArray bs) =
     Inr (NpArray (map (\<lambda>(a, b). np_div a b) (zip as bs)))"

fun py_mul :: "pyval \<Rightarrow> pyval \<Rightarrow> pyval" where
  "py_mul (PyFloat a) (PyFloat b) = PyFloat (a * b)"
| "py_mul (PyFloat a) (NpArray bs) = NpArray (map (\<lambda>b. np_mul (Fin a) b) bs)"
| "py_mul (NpArray as) (PyFloat b) = NpArray (map (\<lambda>a. np_mul a (Fin b)) as)"
| "py_mul (NpArray as) (NpArray bs) = NpArray (map (\<lambda>(a, b). np_mul a b) (zip as bs))"

fun py_sub :: "pyval \<Rightarrow> pyval \<Rightarrow> pyval" where
  "py_sub (PyFloat a) (PyFloat b) = PyFloat (a - b)"
| "py_sub (PyFloat a) (NpArray bs) = NpArray (map (\<lambda>b. np_sub (Fin a) b) bs)"
| "py_sub (NpArray as) (PyFloat b) = NpArray (map (\<lambda>a. np_sub a (Fin b)) as)"
| "py_sub (NpArray as) (NpArray bs) = NpArray (map (\<lambda>(a, b). np_sub a b) (zip as bs))"

text \<open>
  The denominator of the reflection term in \<^verbatim>\<open>linksklick\<close>,
  \<^verbatim>\<open>gauss(x_abs, 2*x_abs-x_0 + v_drift*i, 2*D*i)\<close>. \<^verbatim>\<open>x_0\<close> is the array of the
  start positions, \<^verbatim>\<open>x_abs\<close> a Python number and \<^verbatim>\<open>i\<close> a numpy number.
\<close>

definition nenner :: "real list \<Rightarrow> real \<Rightarrow> real \<Rightarrow> real \<Rightarrow> real \<Rightarrow> pyval" where
  "nenner x_0 v_drift D x_abs i =
     gauss (PySkalar x_abs) (map (\<lambda>x0. 2 * x_abs - x0 + v_drift * i) x_0) (2 * D * i)"

text \<open>
  The density with absorption that \<^verbatim>\<open>linksklick\<close> computes at the time \<open>i\<close> from
  the positions \<^verbatim>\<open>x_t\<close>:
  \<^verbatim>\<open>
    try:
        p_mit_abs = (gauss(x_t, x_0 + v_drift*i, 2*D*i) -
                     gauss(x_t, 2*x_abs - x_0 + v_drift*i, 2*D*i) *
                    (gauss(x_abs, x_0 + v_drift*i, 2*D*i) /
                     gauss(x_abs, 2*x_abs-x_0 + v_drift*i, 2*D*i)))
    except ZeroDivisionError:
        p_mit_abs = np.zeros(len(x_t))
  \<close>
\<close>

definition p_mit_abs ::
  "real list \<Rightarrow> real list \<Rightarrow> real \<Rightarrow> real \<Rightarrow> real \<Rightarrow> real \<Rightarrow> py_error + pyval" where
  "p_mit_abs x_t x_0 v_drift D x_abs i =
     (let g1 = gauss (NpFeld x_t) (map (\<lambda>x0. x0 + v_drift * i) x_0) (2 * D * i);
          g2 = gauss (NpFeld x_t) (map (\<lambda>x0. 2 * x_abs - x0 + v_drift * i) x_0) (2 * D * i);
          g3 = gauss (PySkalar x_abs) (map (\<lambda>x0. x0 + v_drift * i) x_0) (2 * D * i);
          g4 = nenner x_0 v_drift D x_abs i
      in case py_truediv g3 g4 of
           Inr q \<Rightarrow> Inr (py_sub g1 (py_mul g2 q))
         | Inl e \<Rightarrow>
             if e = ZeroDivisionError then Inr (NpArray (replicate (length x_t) (Fin 0)))
             else Inl e)"

section \<open>Properties of the differentiation formulas\<close>



section \<open>Properties of the quadrature rules\<close>






section \<open>Properties of the standard map\<close>

lemma py_mod_range:
  assumes "0 < y"
  shows "0 \<le> py_mod x y" and "py_mod x y < y"
proof -
  have "of_int \<lfloor>x / y\<rfloor> * y \<le> x"
    using of_int_floor_le [of "x / y"] unfolding pos_le_divide_eq [OF assms] .
  then show "0 \<le> py_mod x y" by (simp add: py_mod_def mult.commute)
  have "x < (of_int \<lfloor>x / y\<rfloor> + 1) * y"
    using real_of_int_floor_add_one_gt [of "x / y"] unfolding pos_divide_less_eq [OF assms] .
  then show "py_mod x y < y" by (simp add: py_mod_def algebra_simps)
qed

lemma torus_schleife_inv:
  assumes "torus_schleife K n theta p ts ps = (ts', ps')"
  shows "length ts' = length ts + n \<and> length ps' = length ps + n \<and>
         set ts' \<subseteq> set ts \<union> {t. 0 \<le> t \<and> t < 2 * pi} \<and>
         set ps' \<subseteq> set ps \<union> {q. - pi \<le> q \<and> q < pi}"
  using assms
proof (induction n arbitrary: theta p ts ps)
  case 0
  then show ?case by auto
next
  case (Suc n)
  have pos: "0 < 2 * pi" by simp
  define th where "th = theta + py_mod p (2 * pi)"
  define q where "q = p + (py_mod (K * sin th + pi) (2 * pi) - pi)"
  from Suc.prems have run:
    "torus_schleife K n th q (ts @ [py_mod th (2 * pi)]) (ps @ [py_mod (q + pi) (2 * pi) - pi])
       = (ts', ps')"
    by (simp add: Let_def th_def q_def)
  have t_ok: "0 \<le> py_mod th (2 * pi) \<and> py_mod th (2 * pi) < 2 * pi"
    using py_mod_range [OF pos] by blast
  have "0 \<le> py_mod (q + pi) (2 * pi) \<and> py_mod (q + pi) (2 * pi) < 2 * pi"
    using py_mod_range [OF pos] by blast
  then have p_ok: "- pi \<le> py_mod (q + pi) (2 * pi) - pi \<and> py_mod (q + pi) (2 * pi) - pi < pi"
    by linarith
  from Suc.IH [OF run] t_ok p_ok show ?case by auto
qed

text \<open>
  Claim C7. For every kick strength, starting point and iteration count \<open>n\<close>,
  \<^verbatim>\<open>torus_iteration\<close> returns two lists of length exactly \<open>n\<close>; every returned
  \<open>theta\<close> lies in \<open>[0, 2 pi)\<close> and every returned \<open>p\<close> in \<open>[- pi, pi)\<close>.
\<close>

theorem torus_iteration_auf_torus:
  "case torus_iteration theta p K n of (plottheta, plotp) \<Rightarrow>
     length plottheta = n \<and> length plotp = n \<and>
     (\<forall>t \<in> set plottheta. 0 \<le> t \<and> t < 2 * pi) \<and>
     (\<forall>q \<in> set plotp. - pi \<le> q \<and> q < pi)"
proof -
  obtain ts ps where r: "torus_iteration theta p K n = (ts, ps)"
    by (cases "torus_iteration theta p K n")
  then have "torus_schleife K n theta p [] [] = (ts, ps)"
    by (simp add: torus_iteration_def)
  from torus_schleife_inv [OF this] show ?thesis
    unfolding r by auto
qed

theorem torus_iteration_auf_torus_witness:
  "torus_iteration 0 (3 * pi) (26 / 10) 1 = ([pi], [- pi]) \<and>
   (case torus_iteration 0 (3 * pi) (26 / 10) 1 of (plottheta, plotp) \<Rightarrow>
      length plottheta = 1 \<and> length plotp = 1 \<and>
      (\<forall>t \<in> set plottheta. 0 \<le> t \<and> t < 2 * pi) \<and>
      (\<forall>q \<in> set plotp. - pi \<le> q \<and> q < pi))"
proof -
  have a: "py_mod (3 * pi) (2 * pi) = pi"
  proof -
    have "3 * pi / (2 * pi) = 3 / 2" by simp
    then have "\<lfloor>3 * pi / (2 * pi)\<rfloor> = 1" by simp
    then show ?thesis unfolding py_mod_def by simp
  qed
  have b: "py_mod pi (2 * pi) = pi"
  proof -
    have "pi / (2 * pi) = 1 / 2" by simp
    then have "\<lfloor>pi / (2 * pi)\<rfloor> = 0" by simp
    then show ?thesis unfolding py_mod_def by simp
  qed
  have c: "py_mod (4 * pi) (2 * pi) = 0"
  proof -
    have "4 * pi / (2 * pi) = 2" by simp
    then have "\<lfloor>4 * pi / (2 * pi)\<rfloor> = 2" by simp
    then show ?thesis unfolding py_mod_def by simp
  qed
  have v: "torus_iteration 0 (3 * pi) (26 / 10) 1 = ([pi], [- pi])"
    by (simp add: torus_iteration_def Let_def a b c)
  show ?thesis
    using torus_iteration_auf_torus [of 0 "3 * pi" "26 / 10" 1] v by simp
qed

section \<open>Comparison of the two discretisation helpers\<close>

lemma length_np_linspace: "length (fst (np_linspace start stop num endpoint)) = num"
  by (simp add: np_linspace_def Let_def)

lemma np_linspace_offen_nth:
  assumes "i < num"
  shows "fst (np_linspace start stop num False) ! i =
           (if 1 < num then real i * ((stop - start) / real num) + start
            else real i * (stop - start) + start)"
  using assms by (simp add: np_linspace_def Let_def)

lemma np_linspace_geschlossen_nth:
  assumes "i < num"
  shows "fst (np_linspace start stop num True) ! i =
           (if 1 < num then
              (if i = num - 1 then stop
               else real i * ((stop - start) / real (num - 1)) + start)
            else real i * (stop - start) + start)"
  using assms by (simp add: np_linspace_def Let_def nth_list_update)

lemma gitter_innen:
  fixes a b n :: real
  assumes "0 < n + 1"
  defines "d \<equiv> (b - a) / (n + 1)"
  shows "(b - d) - (a + d) = d * (n - 1)"
proof -
  have "d * (n + 1) = b - a"
    using assms by (simp add: d_def)
  then have "(b - d) - (a + d) = d * (n + 1) - 2 * d" by simp
  also have "\<dots> = d * (n - 1)" by (simp add: algebra_simps)
  finally show ?thesis .
qed

lemma diskretisierung_5_1_nth:
  assumes "i < N"
  shows "diskretisierung_5_1 a b N ! i = a + (real i + 1) * ((b - a) / (real N + 1))"
proof -
  define d where "d = (b - a) / (real N + 1)"
  have inner: "(b - d) - (a + d) = d * (real N - 1)"
    unfolding d_def by (rule gitter_innen) simp
  have x: "diskretisierung_5_1 a b N ! i = fst (np_linspace (a + d) (b - d) N True) ! i"
    by (simp add: diskretisierung_5_1_def d_def Let_def)
  show ?thesis
  proof (cases "1 < N")
    case False
    with assms have "N = 1" "i = 0" by simp_all
    then show ?thesis
      unfolding x d_def [symmetric] by (simp add: np_linspace_geschlossen_nth)
  next
    case True
    then have n1: "real (N - 1) = real N - 1" by (simp add: of_nat_diff)
    from True have pos: "real N - 1 \<noteq> 0" by simp
    have step: "((b - d) - (a + d)) / real (N - 1) = d"
      unfolding inner n1 using pos by simp
    show ?thesis
    proof (cases "i = N - 1")
      case True
      then have "real i + 1 = real N" using n1 \<open>1 < N\<close> by simp
      moreover have "b - d = a + real N * d"
        using inner by (simp add: algebra_simps)
      ultimately show ?thesis
        unfolding x d_def [symmetric] using \<open>1 < N\<close> assms True
        by (simp add: np_linspace_geschlossen_nth)
    next
      case False
      with \<open>1 < N\<close> assms
      have "fst (np_linspace (a + d) (b - d) N True) ! i =
              real i * (((b - d) - (a + d)) / real (N - 1)) + (a + d)"
        by (simp add: np_linspace_geschlossen_nth)
      then show ?thesis
        unfolding x d_def [symmetric] step by (simp add: algebra_simps)
    qed
  qed
qed

lemma diskretisierung_7_1_nth:
  assumes "i < N" and "diskretisierung_7_1 a b N False = Inl ys"
  shows "ys ! i = a + (b - a) / (real N + 1) +
                  real i * ((b - a) * (real N - 1) / (real N * (real N + 1)))"
proof -
  define d where "d = (b - a) / (real N + 1)"
  have inner: "(b - d) - (a + d) = d * (real N - 1)"
    unfolding d_def by (rule gitter_innen) simp
  from assms(2) have y: "ys = fst (np_linspace (a + d) (b - d) N False)"
    by (simp add: diskretisierung_7_1_def d_def Let_def)
  have w: "(b - a) * (real N - 1) / (real N * (real N + 1)) = d * (real N - 1) / real N"
    by (simp add: d_def)
  show ?thesis
  proof (cases "1 < N")
    case False
    with assms have "N = 1" "i = 0" by simp_all
    then show ?thesis
      unfolding y d_def [symmetric] by (simp add: np_linspace_offen_nth)
  next
    case True
    with assms have "ys ! i = real i * (((b - d) - (a + d)) / real N) + (a + d)"
      unfolding y by (simp add: np_linspace_offen_nth)
    then show ?thesis
      unfolding w d_def [symmetric] inner by (simp add: algebra_simps)
  qed
qed

text \<open>
  Claim C4, as amended. For \<open>a < b\<close> and \<open>N \<ge> 1\<close> both helpers return \<open>N\<close> values
  and start at the same first value \<open>a + (b - a) / (N + 1)\<close>. The grid of
  5\_1\_katharina.py has the spacing \<open>(b - a) / (N + 1)\<close>, the grid of
  7\_1\_katharina.py (built with \<^verbatim>\<open>endpoint=False\<close>) has the spacing
  \<open>(b - a) (N - 1) / (N (N + 1))\<close>, and the two arrays are equal if and only if
  \<open>N = 1\<close>.
\<close>

theorem diskretisierung_vergleich:
  assumes "a < b" and "1 \<le> N"
  shows "\<exists>ys. diskretisierung_7_1 a b N False = Inl ys \<and>
           length ys = N \<and> length (diskretisierung_5_1 a b N) = N \<and>
           (\<forall>i<N. diskretisierung_5_1 a b N ! i =
                     a + (real i + 1) * ((b - a) / (real N + 1)) \<and>
                   ys ! i = a + (b - a) / (real N + 1) +
                     real i * ((b - a) * (real N - 1) / (real N * (real N + 1)))) \<and>
           (ys = diskretisierung_5_1 a b N \<longleftrightarrow> N = 1)"
proof -
  define xs where "xs = diskretisierung_5_1 a b N"
  define ys where "ys = fst (np_linspace (a + (b - a) / (real N + 1))
                               (b - (b - a) / (real N + 1)) N False)"
  have r: "diskretisierung_7_1 a b N False = Inl ys"
    by (simp add: diskretisierung_7_1_def ys_def Let_def)
  have ly: "length ys = N"
    by (simp add: ys_def length_np_linspace)
  have lx: "length xs = N"
    by (simp add: xs_def diskretisierung_5_1_def Let_def length_np_linspace)
  have nx: "xs ! i = a + (real i + 1) * ((b - a) / (real N + 1))" if "i < N" for i
    unfolding xs_def by (rule diskretisierung_5_1_nth [OF that])
  have ny: "ys ! i = a + (b - a) / (real N + 1) +
              real i * ((b - a) * (real N - 1) / (real N * (real N + 1)))" if "i < N" for i
    by (rule diskretisierung_7_1_nth [OF that r])
  have eq: "ys = xs \<longleftrightarrow> N = 1"
  proof
    assume same: "ys = xs"
    show "N = 1"
    proof (rule ccontr)
      assume "N \<noteq> 1"
      with assms have two: "1 < N" by simp
      then have "xs ! 1 = ys ! 1" using same by simp
      define d where "d = (b - a) / (real N + 1)"
      have dpos: "0 < d" using assms by (simp add: d_def)
      have "xs ! 1 = a + 2 * d"
        using nx [OF two] by (simp add: d_def)
      moreover have "ys ! 1 = a + d + d * (real N - 1) / real N"
        using ny [OF two] by (simp add: d_def)
      ultimately have "d = d * (real N - 1) / real N"
        using \<open>xs ! 1 = ys ! 1\<close> by simp
      with two have "d * real N = d * (real N - 1)"
        by (simp add: field_simps)
      then have "d = 0" by (simp add: algebra_simps)
      with dpos show False by simp
    qed
  next
    assume "N = 1"
    with lx ly nx [of 0] ny [of 0] show "ys = xs"
      by (simp add: list_eq_iff_nth_eq)
  qed
  from r ly lx nx ny eq show ?thesis
    unfolding xs_def by blast
qed

theorem diskretisierung_vergleich_witness:
  "(0::real) < 3 \<and> (1::nat) \<le> 2 \<and>
  (\<exists>ys. diskretisierung_7_1 0 3 2 False = Inl ys \<and>
           length ys = 2 \<and> length (diskretisierung_5_1 0 3 2) = 2 \<and>
           (\<forall>i<2. diskretisierung_5_1 0 3 2 ! i =
                     0 + (real i + 1) * ((3 - 0) / (real 2 + 1)) \<and>
                   ys ! i = 0 + (3 - 0) / (real 2 + 1) +
                     real i * ((3 - 0) * (real 2 - 1) / (real 2 * (real 2 + 1)))) \<and>
           (ys = diskretisierung_5_1 0 3 2 \<longleftrightarrow> (2::nat) = 1))"
  using diskretisierung_vergleich [of 0 3 2] by simp

text \<open>
  Claim C4 as stated fails: on the interval \<open>[0, 3]\<close> with \<open>N = 2\<close> the helper of
  5\_1\_katharina.py returns \<open>[1, 2]\<close> and the helper of 7\_1\_katharina.py returns
  \<open>[1, 3/2]\<close>.
\<close>

theorem diskretisierung_verschieden:
  "(0::real) < 3 \<and> (1::nat) \<le> 2 \<and>
   diskretisierung_5_1 0 3 2 = [1, 2] \<and>
   diskretisierung_7_1 0 3 2 False = Inl [1, 3 / 2] \<and>
   diskretisierung_7_1 0 3 2 False \<noteq> Inl (diskretisierung_5_1 0 3 2)"
  by (simp add: diskretisierung_5_1_def diskretisierung_7_1_def np_linspace_def Let_def upt_rec)

section \<open>Properties of the Hamiltonian matrices\<close>

lemma np_diag_quadratisch: "quadratisch (length v + nat \<bar>k\<bar>) (np_diag v k)"
  by (simp add: quadratisch_def np_diag_def Let_def)

lemma np_diag_nth:
  assumes "i < length v + nat \<bar>k\<bar>" and "j < length v + nat \<bar>k\<bar>"
  shows "np_diag v k ! i ! j =
           (if int j - int i = k then v ! (if 0 \<le> k then i else j) else 0)"
  using assms by (simp add: np_diag_def Let_def)

lemma np_add_quadratisch:
  assumes "quadratisch n A" and "quadratisch n B"
  shows "\<exists>C. np_add A B = Inr C \<and> quadratisch n C \<and>
           (\<forall>i<n. \<forall>j<n. C ! i ! j = A ! i ! j + B ! i ! j)"
proof -
  define C where "C = map2 (map2 (+)) A B"
  from assms have len: "length A = n" "length B = n"
    by (simp_all add: quadratisch_def)
  then have r: "np_add A B = Inr C"
    by (simp add: np_add_def C_def)
  have rows: "length (A ! i) = n" "length (B ! i) = n" if "i < n" for i
    using assms that by (simp_all add: quadratisch_def)
  have q: "quadratisch n C"
    using len rows by (simp add: quadratisch_def C_def)
  have e: "C ! i ! j = A ! i ! j + B ! i ! j" if "i < n" "j < n" for i j
    using that len rows by (simp add: C_def)
  from r q e show ?thesis by blast
qed

text \<open>
  Claim C1. For \<open>N \<ge> 2\<close>, a grid of at least two points whose first two differ,
  and \<open>N\<close> potential values, \<^verbatim>\<open>diagonalisieren\<close> raises nothing and returns what the
  library eigensolver produces for the \<open>N\<close>-by-\<open>N\<close> symmetric tridiagonal matrix
  with the diagonal entries \<open>V_i + h_eff^2 / delta_x^2\<close> and the sub- and
  super-diagonal entries \<open>- h_eff^2 / (2 delta_x^2)\<close>, where
  \<open>delta_x = x[1] - x[0]\<close>.
\<close>

theorem diagonalisieren_tridiagonal:
  assumes "2 \<le> N" and "2 \<le> length x" and "length V = N" and "x ! 1 \<noteq> x ! 0"
  shows "\<exists>matrix. diagonalisieren eigh N h_eff x V = Inr (eigh matrix) \<and>
           length matrix = N \<and>
           (\<forall>i<N. length (matrix ! i) = N \<and>
              (\<forall>j<N. matrix ! i ! j =
                 (if i = j then V ! i + h_eff\<^sup>2 / (x ! 1 - x ! 0)\<^sup>2
                  else if i = j + 1 \<or> j = i + 1
                       then - (h_eff\<^sup>2 / (2 * (x ! 1 - x ! 0)\<^sup>2))
                  else 0)))"
proof -
  define z where "z = h_eff\<^sup>2 / (2 * (x ! 1 - x ! 0)\<^sup>2)"
  define D0 where "D0 = np_diag V 0"
  define D1 where "D1 = np_diag (map (\<lambda>e. e * 2 * z) (np_ones N)) 0"
  define D2 where "D2 = np_diag (map (\<lambda>e. e * - z) (np_ones (N - 1))) (- 1)"
  define D3 where "D3 = np_diag (map (\<lambda>e. e * - z) (np_ones (N - 1))) 1"
  from assms(1) have N1: "N - 1 + 1 = N" by simp
  have q0: "quadratisch N D0"
    using np_diag_quadratisch [of V 0] assms(3) by (simp add: D0_def)
  have q1: "quadratisch N D1"
    using np_diag_quadratisch [of "map (\<lambda>e. e * 2 * z) (np_ones N)" 0]
    by (simp add: D1_def np_ones_def)
  have q2: "quadratisch N D2"
    using np_diag_quadratisch [of "map (\<lambda>e. e * - z) (np_ones (N - 1))" "- 1"] N1
    by (simp add: D2_def np_ones_def)
  have q3: "quadratisch N D3"
    using np_diag_quadratisch [of "map (\<lambda>e. e * - z) (np_ones (N - 1))" 1] N1
    by (simp add: D3_def np_ones_def)
  from np_add_quadratisch [OF q0 q1] obtain m1 where
    m1: "np_add D0 D1 = Inr m1" "quadratisch N m1"
      "\<forall>i<N. \<forall>j<N. m1 ! i ! j = D0 ! i ! j + D1 ! i ! j"
    by blast
  from np_add_quadratisch [OF m1(2) q2] obtain m2 where
    m2: "np_add m1 D2 = Inr m2" "quadratisch N m2"
      "\<forall>i<N. \<forall>j<N. m2 ! i ! j = m1 ! i ! j + D2 ! i ! j"
    by blast
  from np_add_quadratisch [OF m2(2) q3] obtain m3 where
    m3: "np_add m2 D3 = Inr m3" "quadratisch N m3"
      "\<forall>i<N. \<forall>j<N. m3 ! i ! j = m2 ! i ! j + D3 ! i ! j"
    by blast
  have mat: "matrix_5_1 N h_eff x V = Inr m3"
    using assms(1,2) m1(1) m2(1) m3(1)
    unfolding matrix_5_1_def Let_def D0_def D1_def D2_def D3_def z_def
    by simp
  have res: "diagonalisieren eigh N h_eff x V = Inr (eigh m3)"
    using assms(4) by (simp add: diagonalisieren_def mat)
  have d0: "D0 ! i ! j = (if i = j then V ! i else 0)" if "i < N" "j < N" for i j
    using that assms(3) by (simp add: D0_def np_diag_nth)
  have d1: "D1 ! i ! j = (if i = j then 2 * z else 0)" if "i < N" "j < N" for i j
    using that by (simp add: D1_def np_diag_nth np_ones_def)
  have d2: "D2 ! i ! j = (if i = j + 1 then - z else 0)" if "i < N" "j < N" for i j
  proof -
    have "D2 ! i ! j = (if int j - int i = - 1
                        then map (\<lambda>e. e * - z) (np_ones (N - 1)) ! j else 0)"
      unfolding D2_def using that N1 by (subst np_diag_nth) (simp_all add: np_ones_def)
    moreover have "int j - int i = - 1 \<longleftrightarrow> i = j + 1" by linarith
    moreover have "map (\<lambda>e. e * - z) (np_ones (N - 1)) ! j = - z" if "i = j + 1"
      using that \<open>i < N\<close> by (simp add: np_ones_def)
    ultimately show ?thesis by simp
  qed
  have d3: "D3 ! i ! j = (if j = i + 1 then - z else 0)" if "i < N" "j < N" for i j
  proof -
    have "D3 ! i ! j = (if int j - int i = 1
                        then map (\<lambda>e. e * - z) (np_ones (N - 1)) ! i else 0)"
      unfolding D3_def using that N1 by (subst np_diag_nth) (simp_all add: np_ones_def)
    moreover have "int j - int i = 1 \<longleftrightarrow> j = i + 1" by linarith
    moreover have "map (\<lambda>e. e * - z) (np_ones (N - 1)) ! i = - z" if "j = i + 1"
      using that \<open>j < N\<close> by (simp add: np_ones_def)
    ultimately show ?thesis by simp
  qed
  have zz: "2 * z = h_eff\<^sup>2 / (x ! 1 - x ! 0)\<^sup>2"
    by (simp add: z_def)
  have entry: "m3 ! i ! j =
      (if i = j then V ! i + h_eff\<^sup>2 / (x ! 1 - x ! 0)\<^sup>2
       else if i = j + 1 \<or> j = i + 1 then - (h_eff\<^sup>2 / (2 * (x ! 1 - x ! 0)\<^sup>2))
       else 0)" if "i < N" "j < N" for i j
  proof -
    have "m3 ! i ! j = D0 ! i ! j + D1 ! i ! j + D2 ! i ! j + D3 ! i ! j"
      using that m1(3) m2(3) m3(3) by simp
    also have "\<dots> = (if i = j then V ! i + 2 * z
                     else if i = j + 1 \<or> j = i + 1 then - z else 0)"
      using that by (simp add: d0 d1 d2 d3)
    finally show ?thesis unfolding zz by (simp add: z_def)
  qed
  from m3(2) have "length m3 = N" "\<forall>i<N. length (m3 ! i) = N"
    by (simp_all add: quadratisch_def)
  with res entry show ?thesis by blast
qed


theorem diagonalisieren_tridiagonal_witness:
  "(2::nat) \<le> 2 \<and> 2 \<le> length [0, 1::real] \<and> length [3, 5::real] = 2 \<and>
   [0, 1::real] ! 1 \<noteq> [0, 1] ! 0 \<and>
   diagonalisieren (\<lambda>m. m) 2 2 [0, 1] [3, 5] = Inr [[7, - 2], [- 2, 9]] \<and>
   (\<exists>matrix. diagonalisieren (\<lambda>m. m) 2 2 [0, 1] [3, 5] = Inr ((\<lambda>m. m) matrix) \<and>
           length matrix = 2 \<and>
           (\<forall>i<2. length (matrix ! i) = 2 \<and>
              (\<forall>j<2. matrix ! i ! j =
                 (if i = j then [3, 5] ! i + 2\<^sup>2 / ([0, 1] ! 1 - [0, 1] ! 0)\<^sup>2
                  else if i = j + 1 \<or> j = i + 1
                       then - (2\<^sup>2 / (2 * ([0, 1] ! 1 - [0, 1] ! 0)\<^sup>2))
                  else 0))))"
proof -
  have v: "diagonalisieren (\<lambda>m. m) 2 2 [0, 1] [3, 5] = Inr [[7, - 2], [- 2, 9::real]]"
    by (simp add: diagonalisieren_def matrix_5_1_def np_add_def np_diag_def np_ones_def
          Let_def upt_rec numeral_2_eq_2)
  show ?thesis
    using diagonalisieren_tridiagonal [of 2 "[0, 1]" "[3, 5]" "\<lambda>m. m" 2] v by simp
qed

lemma setze_quadratisch:
  assumes "quadratisch n h" and "a < n" and "b < n"
  shows "quadratisch n (setze h a b c) \<and>
         (\<forall>i<n. \<forall>j<n. setze h a b c ! i ! j = (if i = a \<and> j = b then c else h ! i ! j))"
  using assms by (auto simp add: quadratisch_def setze_def nth_list_update)

lemma ecken_konjugiert:
  "cnj (complex_of_real r * exp (\<i> * complex_of_real k)) =
     complex_of_real r * exp (- \<i> * complex_of_real k)"
  "cnj (complex_of_real r * exp (- \<i> * complex_of_real k)) =
     complex_of_real r * exp (\<i> * complex_of_real k)"
proof -
  have p: "exp (\<i> * complex_of_real k) = cis k"
    by (simp add: cis_conv_exp)
  have m: "exp (- \<i> * complex_of_real k) = cis (- k)"
    by (simp add: cis_conv_exp)
  show "cnj (complex_of_real r * exp (\<i> * complex_of_real k)) =
     complex_of_real r * exp (- \<i> * complex_of_real k)"
    unfolding p m by (simp add: cis_cnj)
  show "cnj (complex_of_real r * exp (- \<i> * complex_of_real k)) =
     complex_of_real r * exp (\<i> * complex_of_real k)"
    unfolding p m by (simp add: cis_cnj)
qed

lemma matrix_7_1_zerlegt:
  assumes "2 \<le> length x"
    and "z = h_eff\<^sup>2 / (2 * (x ! 1 - x ! 0)\<^sup>2)"
    and "np_add (np_diag (map (\<lambda>v. complex_of_real (v + 2 * z) + 0) (map V x)) 0)
                (np_diag (map (\<lambda>e. complex_of_real (- z * e) + 0) (np_ones (length x - 1))) (- 1))
           = Inr m1"
    and "np_add m1 (np_diag (map (\<lambda>e. complex_of_real (- z * e) + 0) (np_ones (length x - 1))) 1)
           = Inr m2"
  shows "matrix_7_1 h_eff x V k =
           Inr (setze (setze m2 0 (length x - 1)
                         (complex_of_real (- z) * exp (- \<i> * complex_of_real k)))
                  (length x - 1) 0 (complex_of_real (- z) * exp (\<i> * complex_of_real k)))"
proof -
  from assms(1) have nl: "\<not> length x < 2" by simp
  show ?thesis
    unfolding matrix_7_1_def Let_def assms(2) [symmetric]
    by (simp only: nl if_False assms(3) assms(4) sum.case)
qed

text \<open>
  Claim C9. For every real Bloch phase \<open>k\<close>, every grid of at least two points
  (the first two distinct) and every real potential, the matrix that
  \<^verbatim>\<open>diagonalisierung\<close> assembles is Hermitian: it is square, its corner entries
  \<open>- z exp (- i k)\<close> and \<open>- z exp (i k)\<close> are conjugates of each other, and every
  entry is the conjugate of its mirror entry. The eigenvalues returned are those
  the library eigensolver computes for this matrix.
\<close>

theorem diagonalisierung_hermitesch:
  assumes "2 \<le> length x" and "x ! 1 \<noteq> x ! 0"
  shows "\<exists>h. matrix_7_1 h_eff x V k = Inr h \<and> hermitesch h \<and> length h = length x \<and>
           h ! 0 ! (length x - 1) =
             complex_of_real (- (h_eff\<^sup>2 / (2 * (x ! 1 - x ! 0)\<^sup>2))) *
               exp (- \<i> * complex_of_real k) \<and>
           h ! (length x - 1) ! 0 =
             complex_of_real (- (h_eff\<^sup>2 / (2 * (x ! 1 - x ! 0)\<^sup>2))) *
               exp (\<i> * complex_of_real k) \<and>
           h ! 0 ! (length x - 1) = cnj (h ! (length x - 1) ! 0) \<and>
           (\<exists>ef. diagonalisierung eigh h_eff x V k = Inr (fst (eigh h), ef))"
proof -
  define N where "N = length x"
  define z where "z = h_eff\<^sup>2 / (2 * (x ! 1 - x ! 0)\<^sup>2)"
  define c1 where "c1 = complex_of_real (- z) * exp (- \<i> * complex_of_real k)"
  define c2 where "c2 = complex_of_real (- z) * exp (\<i> * complex_of_real k)"
  define D0 where "D0 = np_diag (map (\<lambda>v. complex_of_real (v + 2 * z) + 0) (map V x)) 0"
  define D2 where
    "D2 = np_diag (map (\<lambda>e. complex_of_real (- z * e) + 0) (np_ones (N - 1))) (- 1)"
  define D3 where
    "D3 = np_diag (map (\<lambda>e. complex_of_real (- z * e) + 0) (np_ones (N - 1))) 1"
  from assms(1) have N2: "2 \<le> N" and N1: "N - 1 + 1 = N" by (simp_all add: N_def)
  have q0: "quadratisch N D0"
    using np_diag_quadratisch [of "map (\<lambda>v. complex_of_real (v + 2 * z) + 0) (map V x)" 0]
    by (simp add: D0_def N_def)
  have q2: "quadratisch N D2"
    using np_diag_quadratisch
      [of "map (\<lambda>e. complex_of_real (- z * e) + 0) (np_ones (N - 1))" "- 1"] N1
    by (simp add: D2_def np_ones_def)
  have q3: "quadratisch N D3"
    using np_diag_quadratisch
      [of "map (\<lambda>e. complex_of_real (- z * e) + 0) (np_ones (N - 1))" 1] N1
    by (simp add: D3_def np_ones_def)
  from np_add_quadratisch [OF q0 q2] obtain m1 where
    m1: "np_add D0 D2 = Inr m1" "quadratisch N m1"
      "\<forall>i<N. \<forall>j<N. m1 ! i ! j = D0 ! i ! j + D2 ! i ! j"
    by blast
  from np_add_quadratisch [OF m1(2) q3] obtain m2 where
    m2: "np_add m1 D3 = Inr m2" "quadratisch N m2"
      "\<forall>i<N. \<forall>j<N. m2 ! i ! j = m1 ! i ! j + D3 ! i ! j"
    by blast
  define h1 where "h1 = setze m2 0 (N - 1) c1"
  define h2 where "h2 = setze h1 (N - 1) 0 c2"
  from N2 have lt: "0 < N" "N - 1 < N" by simp_all
  from setze_quadratisch [OF m2(2) lt(1) lt(2), of c1]
  have s1: "quadratisch N h1"
    "\<forall>i<N. \<forall>j<N. h1 ! i ! j = (if i = 0 \<and> j = N - 1 then c1 else m2 ! i ! j)"
    by (simp_all add: h1_def)
  from setze_quadratisch [OF s1(1) lt(2) lt(1), of c2]
  have s2: "quadratisch N h2"
    "\<forall>i<N. \<forall>j<N. h2 ! i ! j = (if i = N - 1 \<and> j = 0 then c2 else h1 ! i ! j)"
    by (simp_all add: h2_def)
  have mat: "matrix_7_1 h_eff x V k = Inr h2"
    using matrix_7_1_zerlegt [OF assms(1) z_def m1(1) [unfolded D0_def D2_def N_def]
        m2(1) [unfolded D3_def N_def]]
    unfolding h2_def h1_def c1_def c2_def N_def .
  have d0: "D0 ! i ! j = (if i = j then complex_of_real (V (x ! i) + 2 * z) else 0)"
    if "i < N" "j < N" for i j
    using that by (simp add: D0_def np_diag_nth N_def)
  have d2: "D2 ! i ! j = (if i = j + 1 then complex_of_real (- z) else 0)"
    if "i < N" "j < N" for i j
  proof -
    have "D2 ! i ! j = (if int j - int i = - 1
        then map (\<lambda>e. complex_of_real (- z * e) + 0) (np_ones (N - 1)) ! j else 0)"
      unfolding D2_def using that N1 by (subst np_diag_nth) (simp_all add: np_ones_def)
    moreover have "int j - int i = - 1 \<longleftrightarrow> i = j + 1" by linarith
    moreover have "map (\<lambda>e. complex_of_real (- z * e) + 0) (np_ones (N - 1)) ! j
                     = complex_of_real (- z)" if "i = j + 1"
      using that \<open>i < N\<close> by (simp add: np_ones_def)
    ultimately show ?thesis by simp
  qed
  have d3: "D3 ! i ! j = (if j = i + 1 then complex_of_real (- z) else 0)"
    if "i < N" "j < N" for i j
  proof -
    have "D3 ! i ! j = (if int j - int i = 1
        then map (\<lambda>e. complex_of_real (- z * e) + 0) (np_ones (N - 1)) ! i else 0)"
      unfolding D3_def using that N1 by (subst np_diag_nth) (simp_all add: np_ones_def)
    moreover have "int j - int i = 1 \<longleftrightarrow> j = i + 1" by linarith
    moreover have "map (\<lambda>e. complex_of_real (- z * e) + 0) (np_ones (N - 1)) ! i
                     = complex_of_real (- z)" if "j = i + 1"
      using that \<open>j < N\<close> by (simp add: np_ones_def)
    ultimately show ?thesis by simp
  qed
  have band: "m2 ! i ! j =
      (if i = j then complex_of_real (V (x ! i) + 2 * z)
       else if i = j + 1 \<or> j = i + 1 then complex_of_real (- z) else 0)"
    if "i < N" "j < N" for i j
  proof -
    have "m2 ! i ! j = D0 ! i ! j + D2 ! i ! j + D3 ! i ! j"
      using that m1(3) m2(3) by simp
    then show ?thesis using that by (simp add: d0 d2 d3)
  qed
  have band_sym: "m2 ! i ! j = cnj (m2 ! j ! i)" if "i < N" "j < N" for i j
    using that by (auto simp add: band)
  have entry: "h2 ! i ! j =
      (if i = N - 1 \<and> j = 0 then c2 else if i = 0 \<and> j = N - 1 then c1 else m2 ! i ! j)"
    if "i < N" "j < N" for i j
    using that s1(2) s2(2) by simp
  have cc: "cnj c2 = c1" "cnj c1 = c2"
    unfolding c1_def c2_def by (rule ecken_konjugiert)+
  have herm_entries: "h2 ! i ! j = cnj (h2 ! j ! i)" if "i < N" "j < N" for i j
  proof -
    from N2 have ne: "N - 1 \<noteq> 0" by simp
    consider (unten) "i = N - 1" "j = 0" | (oben) "i = 0" "j = N - 1"
      | (band) "\<not> (i = N - 1 \<and> j = 0)" "\<not> (i = 0 \<and> j = N - 1)"
      by blast
    then show ?thesis
    proof cases
      case unten
      with ne have "h2 ! i ! j = c2" "h2 ! j ! i = c1"
        using entry [OF that] entry [OF that(2) that(1)] by simp_all
      then show ?thesis by (simp add: cc)
    next
      case oben
      with ne have "h2 ! i ! j = c1" "h2 ! j ! i = c2"
        using entry [OF that] entry [OF that(2) that(1)] by simp_all
      then show ?thesis by (simp add: cc)
    next
      case band
      then have "h2 ! i ! j = m2 ! i ! j" "h2 ! j ! i = m2 ! j ! i"
        using entry [OF that] entry [OF that(2) that(1)] by auto
      then show ?thesis using band_sym [OF that] by simp
    qed
  qed
  from s2(1) have dims: "length h2 = N" "\<forall>i<N. length (h2 ! i) = N"
    by (simp_all add: quadratisch_def)
  have herm: "hermitesch h2"
    unfolding hermitesch_def dims(1) using dims(2) herm_entries by blast
  from N2 have ne: "N - 1 \<noteq> 0" by simp
  have e1: "h2 ! 0 ! (N - 1) = c1"
    using entry [OF lt(1) lt(2)] ne by simp
  have e2: "h2 ! (N - 1) ! 0 = c2"
    using entry [OF lt(2) lt(1)] by simp
  have res: "\<exists>ef. diagonalisierung eigh h_eff x V k = Inr (fst (eigh h2), ef)"
    using assms(2) by (simp add: diagonalisierung_def mat Let_def split: prod.split)
  from mat herm dims(1) e1 e2 cc res show ?thesis
    unfolding N_def c1_def c2_def z_def by auto
qed


theorem diagonalisierung_hermitesch_witness:
  "2 \<le> length [0, 1::real] \<and> [0, 1::real] ! 1 \<noteq> [0, 1] ! 0 \<and>
   (\<exists>h. matrix_7_1 2 [0, 1] (\<lambda>v. v) 0 = Inr h \<and> hermitesch h \<and>
      length h = length [0, 1::real] \<and>
      h ! 0 ! (length [0, 1::real] - 1) =
        complex_of_real (- (2\<^sup>2 / (2 * ([0, 1] ! 1 - [0, 1] ! 0)\<^sup>2))) *
          exp (- \<i> * complex_of_real 0) \<and>
      h ! (length [0, 1::real] - 1) ! 0 =
        complex_of_real (- (2\<^sup>2 / (2 * ([0, 1] ! 1 - [0, 1] ! 0)\<^sup>2))) *
          exp (\<i> * complex_of_real 0) \<and>
      h ! 0 ! (length [0, 1::real] - 1) = cnj (h ! (length [0, 1::real] - 1) ! 0) \<and>
      (\<exists>ef. diagonalisierung (\<lambda>m. ([], [])) 2 [0, 1] (\<lambda>v. v) 0 =
             Inr (fst ((\<lambda>m. ([], [])) h), ef)))"
  using diagonalisierung_hermitesch [where x = "[0, 1]" and h_eff = 2 and V = "\<lambda>v. v" and k = 0
      and eigh = "\<lambda>m. ([], [])"]
  by simp

section \<open>Properties of the mouse-click handlers\<close>

text \<open>
  Claim C8. Every mouse-click handler recomputes and redraws only for a left click
  inside an axes while the toolbar mode is empty: for every other event (another
  button, a click outside the axes, or an active toolbar mode) each of the five
  handlers returns without raising and leaves the figure and the console as they
  were.
\<close>

theorem linksklick_rahmen:
  assumes "\<not> (button ev = 1 \<and> inaxes ev \<noteq> None \<and> toolbar_mode st = [])"
  shows "linksklick_1_1 ev K st = Inr st \<and>
         linksklick_4_1 odeint ev A B omega perioden N st = Inr st \<and>
         linksklick_6_1 rumpf6 ev st = Inr st \<and>
         linksklick_7_1 rumpf7 ax1 ev st = Inr st \<and>
         linksklick_9_1 rumpf9 ev st = Inr st"
proof -
  from assms have t: "\<not> linksklick_test ev st"
    by (simp add: linksklick_test_def)
  from assms have t7: "\<not> (button ev = 1 \<and> inaxes ev = Some ax1 \<and> toolbar_mode st = [])"
    by auto
  have h7: "linksklick_7_1 rumpf7 ax1 ev st = Inr st"
    unfolding linksklick_7_1_def using t7 by (simp only: if_False)
  show ?thesis
    using t h7
    by (simp add: linksklick_1_1_def linksklick_4_1_def linksklick_6_1_def
          linksklick_9_1_def)
qed

theorem linksklick_rahmen_witness:
  "\<not> (button \<lparr>button = 3, inaxes = Some 0, xdata = 1, ydata = 2\<rparr> = 1 \<and>
      inaxes \<lparr>button = 3, inaxes = Some 0, xdata = 1, ydata = 2\<rparr> \<noteq> None \<and>
      toolbar_mode \<lparr>toolbar_mode = [], linien = [], konsole = []\<rparr> = []) \<and>
   linksklick_1_1 \<lparr>button = 3, inaxes = Some 0, xdata = 1, ydata = 2\<rparr> (26 / 10)
     \<lparr>toolbar_mode = [], linien = [], konsole = []\<rparr>
     = Inr \<lparr>toolbar_mode = [], linien = [], konsole = []\<rparr>"
  using linksklick_rahmen [of "\<lparr>button = 3, inaxes = Some 0, xdata = 1, ydata = 2\<rparr>"
      "\<lparr>toolbar_mode = [], linien = [], konsole = []\<rparr>" "26 / 10"]
  by simp

section \<open>Properties of the probability densities\<close>

text \<open>
  With \<open>var = 0\<close> and \<open>mu\<close> different from every entry of \<open>x\<close>, \<^verbatim>\<open>gauss\<close> returns
  zero in the shape of \<open>x\<close>: the float 0 for a number, an all-zero array for an
  array.
\<close>

lemma gauss_null:
  assumes "var = 0" and "alle_ungleich mu x"
  shows "gauss x mu var =
           (case x of PySkalar r \<Rightarrow> PyFloat 0
            | NpFeld xs \<Rightarrow> NpArray (replicate (length xs) (Fin 0)))"
  using assms by (cases x) (simp_all add: map_replicate_const)

text \<open>
  Where the numerator \<^verbatim>\<open>gauss(x_abs, x_0 + v_drift*i, 2*D*i)\<close> and the denominator
  both take the zero branch, both are Python floats, the division raises and the
  handler of \<^verbatim>\<open>ZeroDivisionError\<close> sets the density to zeros.
\<close>

lemma p_mit_abs_null:
  assumes "2 * D * i = 0"
    and "list_all (\<lambda>x0. x0 + v_drift * i \<noteq> x_abs) x_0"
    and "list_all (\<lambda>x0. 2 * x_abs - x0 + v_drift * i \<noteq> x_abs) x_0"
  shows "nenner x_0 v_drift D x_abs i = PyFloat 0 \<and>
         p_mit_abs x_t x_0 v_drift D x_abs i = Inr (NpArray (replicate (length x_t) (Fin 0)))"
proof -
  have a3: "alle_ungleich (map (\<lambda>x0. x0 + v_drift * i) x_0) (PySkalar x_abs)"
    using assms(2) by (simp add: list_all_iff)
  have a4: "alle_ungleich (map (\<lambda>x0. 2 * x_abs - x0 + v_drift * i) x_0) (PySkalar x_abs)"
    using assms(3) by (simp add: list_all_iff)
  have g3: "gauss (PySkalar x_abs) (map (\<lambda>x0. x0 + v_drift * i) x_0) (2 * D * i) = PyFloat 0"
    using gauss_null [OF assms(1) a3] by simp
  have g4: "nenner x_0 v_drift D x_abs i = PyFloat 0"
    unfolding nenner_def using gauss_null [OF assms(1) a4] by simp
  have d: "py_truediv (PyFloat 0) (PyFloat 0) = Inl ZeroDivisionError"
    by simp
  have "p_mit_abs x_t x_0 v_drift D x_abs i = Inr (NpArray (replicate (length x_t) (Fin 0)))"
    unfolding p_mit_abs_def Let_def g3 g4 d by (simp only: sum.case refl if_True)
  with g4 show ?thesis by blast
qed

text \<open>
  At the start time \<open>i = 0\<close> this is the only way for the denominator to be a
  Python float: there a zero denominator always gives the all-zero density.
\<close>

lemma p_mit_abs_start:
  assumes "nenner x_0 v_drift D x_abs 0 = PyFloat r"
  shows "p_mit_abs x_t x_0 v_drift D x_abs 0 = Inr (NpArray (replicate (length x_t) (Fin 0)))"
proof -
  have "alle_ungleich (map (\<lambda>x0. 2 * x_abs - x0 + v_drift * 0) x_0) (PySkalar x_abs)"
    using assms unfolding nenner_def by (simp split: if_splits)
  then have ne: "list_all (\<lambda>x0. x0 \<noteq> x_abs) x_0"
    by (auto simp add: list_all_iff)
  have 1: "list_all (\<lambda>x0. x0 + v_drift * 0 \<noteq> x_abs) x_0"
    using ne by simp
  have 2: "list_all (\<lambda>x0. 2 * x_abs - x0 + v_drift * 0 \<noteq> x_abs) x_0"
    using ne by (auto simp add: list_all_iff)
  from p_mit_abs_null [of D 0, OF _ 1 2] show ?thesis by simp
qed

text \<open>
  Claim C5 says that a zero denominator always falls back to the all-zero density,
  and the comment in the source says so as well. The code does not do it for
  every input. Without diffusion (\<open>D = 0\<close>), drift 1, one particle started at 0 and
  the absorbing boundary at 15, at the time \<open>i = 15\<close> (the particle is at 16 after
  the update with \<^verbatim>\<open>delta_t = 1\<close>) the denominator is the Python float 0, but the
  numerator is a numpy array holding NaN; numpy divides without raising, the
  \<^verbatim>\<open>except\<close> branch is not entered and the density is NaN, not zero.
\<close>

theorem p_mit_abs_nan_statt_null:
  "nenner [0] 1 0 15 15 = PyFloat 0 \<and>
   p_mit_abs [16] [0] 1 0 15 15 = Inr (NpArray [NaN]) \<and>
   p_mit_abs [16] [0] 1 0 15 15 \<noteq> Inr (NpArray (replicate (length [16::real]) (Fin 0)))"
  by (simp add: p_mit_abs_def nenner_def dichte_def unendlich_def Let_def)

section \<open>Error orders of the differentiation and quadrature formulas\<close>

















lemma summe_gitter: "sum_list (map u (map g [0..<N])) = (\<Sum>i<N. u (g i))"
  by (simp add: interv_sum_list_conv_sum_set_nat o_def atLeast0LessThan)







end
